theory Spec2Isabelle
  imports Main "HOL-Library.Multiset" "HOL-Library.AList"
begin

section \<open>JavaScript values used by the component\<close>

text \<open>
  Strings are lists of code units restricted to the range 0..255, one \<^typ>\<open>char\<close> each.
  Numbers are the integer-valued ones plus NaN: the data model gives a widget an integer
  order, and fractional or infinite doubles are outside this development.
\<close>

datatype jsnum = Num int | NaN

datatype jsprim = PUndefined | PNull | PBool bool | PNumber jsnum | PStr string


text \<open>
  \<open>Number(v)\<close> on a primitive. The conversion of a string (StringToNumber of the
  language) is a parameter \<open>str_to_num\<close>: it belongs to the platform, not to this code.
\<close>

fun to_number :: "(string \<Rightarrow> jsnum) \<Rightarrow> jsprim \<Rightarrow> jsnum" where
  "to_number str_to_num PUndefined = NaN"
| "to_number str_to_num PNull = Num 0"
| "to_number str_to_num (PBool b) = Num (if b then 1 else 0)"
| "to_number str_to_num (PNumber n) = n"
| "to_number str_to_num (PStr s) = str_to_num s"

text \<open>\<open>n || 0\<close> for a number \<open>n\<close>: NaN and 0 are falsy, so the result is never NaN.\<close>

fun num_or_zero :: "jsnum \<Rightarrow> int" where
  "num_or_zero NaN = 0"
| "num_or_zero (Num n) = n"

text \<open>
  \<open>String.prototype.trim\<close>: the white space and line terminator code units of the
  language that lie in 0..255 are TAB, LF, VT, FF, CR, SPACE and NBSP.
\<close>

definition is_ws :: "char \<Rightarrow> bool" where
  "is_ws c = ((of_char c :: nat) \<in> set [9, 10, 11, 12, 13, 32, 160])"

definition trim :: "string \<Rightarrow> string" where
  "trim s = rev (dropWhile is_ws (rev (dropWhile is_ws s)))"

section \<open>Settings: JSON values and the configuration parser\<close>

text \<open>
  Values that \<open>JSON.parse\<close> returns. An object is the list of its own properties,
  read with \<^const>\<open>map_of\<close>.
\<close>

datatype json = JNull | JBool bool | JNumber int | JStr string | JArr "json list"
  | JObj "(string \<times> json) list"

fun truthy_json :: "json \<Rightarrow> bool" where
  "truthy_json JNull = False"
| "truthy_json (JBool b) = b"
| "truthy_json (JNumber n) = (n \<noteq> 0)"
| "truthy_json (JStr s) = (s \<noteq> [])"
| "truthy_json (JArr xs) = True"
| "truthy_json (JObj kv) = True"

datatype error = WriteRejected | SecurityError | QuotaExceeded | SyntaxError | TypeError

text \<open>
  \<open>obj[k]\<close> for a key that no prototype defines (the three required keys are such):
  reading a property of \<open>null\<close> throws, an object yields its own property or
  \<open>undefined\<close> (\<open>None\<close>), every other value yields \<open>undefined\<close>.
\<close>

fun get_prop :: "json \<Rightarrow> string \<Rightarrow> error + json option" where
  "get_prop JNull k = Inl TypeError"
| "get_prop (JObj kv) k = Inr (map_of kv k)"
| "get_prop v k = Inr None"

text \<open>\<open>!obj[k]\<close>: \<open>undefined\<close> is falsy.\<close>

definition falsy_prop :: "json option \<Rightarrow> bool" where
  "falsy_prop v = (case v of None \<Rightarrow> True | Some x \<Rightarrow> \<not> truthy_json x)"

definition required :: "string list" where
  "required = [''apiKey'', ''authDomain'', ''projectId'']"

text \<open>The loop \<open>for (const k of required) if (!obj[k]) return null\<close>, then \<open>return obj\<close>.\<close>

fun required_loop :: "json \<Rightarrow> string list \<Rightarrow> error + json" where
  "required_loop obj [] = Inr obj"
| "required_loop obj (k # ks) =
     (case get_prop obj k of
        Inl e \<Rightarrow> Inl e
      | Inr v \<Rightarrow> if falsy_prop v then Inr JNull else required_loop obj ks)"

text \<open>
  \<open>typeof input === 'string' ? JSON.parse(input) : input\<close>. \<open>JSON.parse\<close> is the
  platform's: it is the parameter \<open>parse\<close>, which returns a value or throws.
\<close>

definition decode :: "(string \<Rightarrow> error + json) \<Rightarrow> json \<Rightarrow> error + json" where
  "decode parse input = (case input of JStr s \<Rightarrow> parse s | _ \<Rightarrow> Inr input)"

text \<open>The \<open>try\<close> block catches every throw and returns \<open>null\<close>.\<close>

definition parseFirebaseConfig :: "(string \<Rightarrow> error + json) \<Rightarrow> json \<Rightarrow> json" where
  "parseFirebaseConfig parse input =
     (if \<not> truthy_json input then JNull
      else case decode parse input of
             Inl e \<Rightarrow> JNull
           | Inr obj \<Rightarrow> (case required_loop obj required of Inl e \<Rightarrow> JNull | Inr r \<Rightarrow> r))"

section \<open>Settings: the local-storage hook\<close>

text \<open>
  \<open>window.localStorage\<close>: access may be denied, and a write may exceed the quota;
  both throw.
\<close>

record local_storage =
  ls_available :: bool
  ls_quota :: nat
  ls_items :: "(string \<times> string) list"

definition ls_size :: "(string \<times> string) list \<Rightarrow> nat" where
  "ls_size items = sum_list (map (\<lambda>(k, v). length k + length v) items)"

definition getItem :: "local_storage \<Rightarrow> string \<Rightarrow> error + string option" where
  "getItem ls key = (if ls_available ls then Inr (map_of (ls_items ls) key) else Inl SecurityError)"

definition setItem :: "local_storage \<Rightarrow> string \<Rightarrow> string \<Rightarrow> error + local_storage" where
  "setItem ls key v =
     (if \<not> ls_available ls then Inl SecurityError
      else let items = AList.update key v (ls_items ls) in
           if ls_size items > ls_quota ls then Inl QuotaExceeded
           else Inr (ls\<lparr>ls_items := items\<rparr>))"

text \<open>
  The initialiser of the hook's state cell:
  \<open>try { item = getItem(key); return item ? JSON.parse(item) : initialValue } catch { return initialValue }\<close>.
\<close>

definition useLocalStorage_init ::
  "(string \<Rightarrow> error + 'v) \<Rightarrow> local_storage \<Rightarrow> string \<Rightarrow> 'v \<Rightarrow> 'v" where
  "useLocalStorage_init parse ls key initialValue =
     (case getItem ls key of
        Inl e \<Rightarrow> initialValue
      | Inr None \<Rightarrow> initialValue
      | Inr (Some item) \<Rightarrow>
          if item = [] then initialValue
          else (case parse item of Inl e \<Rightarrow> initialValue | Inr v \<Rightarrow> v))"

text \<open>
  The hook's effect: \<open>try { setItem(key, JSON.stringify(value)) } catch {}\<close>.
  \<open>JSON.stringify\<close> is the parameter \<open>stringify\<close>.
\<close>

definition useLocalStorage_effect ::
  "('v \<Rightarrow> string) \<Rightarrow> local_storage \<Rightarrow> string \<Rightarrow> 'v \<Rightarrow> local_storage" where
  "useLocalStorage_effect stringify ls key v =
     (case setItem ls key (stringify v) of Inl e \<Rightarrow> ls | Inr ls' \<Rightarrow> ls')"

section \<open>Data model\<close>

text \<open>Documents as the snapshot handlers hand them to the component (\<open>{id, ...data}\<close>).\<close>

record page =
  p_id :: string
  p_name :: string
  p_privacyLevel :: string
  p_isDefault :: bool

text \<open>
  A widget's \<open>order\<close> may be absent (\<open>None\<close>), and so may the \<open>pageId\<close> of a widget or
  a post (\<open>None\<close> is \<open>undefined\<close>).
\<close>

record widget =
  w_id :: string
  w_type :: string
  w_content :: string
  w_panelLocation :: string
  w_order :: "int option"
  w_pageId :: "string option"

record post =
  f_id :: string
  f_content :: string
  f_pageId :: "string option"

record auth_user =
  uid :: string

datatype firestore = Firestore

record page_form =
  pf_name :: string
  pf_privacyLevel :: string

record widget_form =
  wf_type :: string
  wf_content :: string
  wf_order :: jsprim

text \<open>
  The component's state, one field per \<open>useState\<close>/\<open>useLocalStorage\<close> cell that the
  modelled operations read or write. \<open>activePageId\<close> is \<open>null\<close> (\<open>None\<close>) or a string.
\<close>

record selphi =
  firebaseConfigRaw :: json
  customToken :: string
  appId :: string
  db :: "firestore option"
  user :: "auth_user option"
  status :: string
  pages :: "page list"
  activePageId :: "string option"
  widgets :: "widget list"
  feed :: "post list"
  showPageModal :: bool
  showLeftWidgetModal :: bool
  showRightWidgetModal :: bool
  showSettings :: bool
  mobileLeftOpen :: bool
  mobileRightOpen :: bool
  newPage :: page_form
  newWidget :: widget_form
  newPost :: string

text \<open>\<open>!activePageId\<close>: \<open>null\<close> and the empty string are falsy.\<close>

definition no_active :: "string option \<Rightarrow> bool" where
  "no_active a = (case a of None \<Rightarrow> True | Some i \<Rightarrow> i = [])"

section \<open>The document store\<close>

text \<open>
  Field values of a written document; \<open>FServerTimestamp\<close> is the sentinel that
  \<open>serverTimestamp()\<close> returns, which the backend replaces by its own clock.
\<close>

datatype field_value = FString string | FNumber int | FBoolean bool | FServerTimestamp

type_synonym document = "(string \<times> field_value) list"

text \<open>The store is the sequence of documents added, each with its collection path.\<close>

type_synonym store = "(string \<times> document) list"

text \<open>
  \<open>await addDoc(collection(db, path), doc)\<close>: the backend accepts the write or rejects
  it; a rejection is thrown at the \<open>await\<close>.
\<close>

definition addDoc :: "bool \<Rightarrow> store \<Rightarrow> string \<Rightarrow> document \<Rightarrow> error + store" where
  "addDoc accepted fs path doc = (if accepted then Inr (fs @ [(path, doc)]) else Inl WriteRejected)"

section \<open>Create operations\<close>

definition basePath :: "string \<Rightarrow> auth_user \<Rightarrow> string" where
  "basePath a u = ''artifacts/'' @ a @ ''/users/'' @ uid u @ ''/selphi_data''"

definition page_doc :: "selphi \<Rightarrow> auth_user \<Rightarrow> document" where
  "page_doc st u =
     [(''userId'', FString (uid u)),
      (''name'', FString (trim (pf_name (newPage st)))),
      (''privacyLevel'', FString (pf_privacyLevel (newPage st))),
      (''isDefault'', FBoolean (length (pages st) = 0)),
      (''createdAt'', FServerTimestamp)]"

definition createPage :: "bool \<Rightarrow> selphi \<Rightarrow> store \<Rightarrow> error + selphi \<times> store" where
  "createPage accepted st fs =
     (case db st of None \<Rightarrow> Inr (st, fs) | Some d \<Rightarrow>
      case user st of None \<Rightarrow> Inr (st, fs) | Some u \<Rightarrow>
      if appId st = [] then Inr (st, fs)
      else if trim (pf_name (newPage st)) = [] then Inr (st, fs)
      else
        case addDoc accepted fs (basePath (appId st) u @ ''/niche_pages'') (page_doc st u) of
          Inl e \<Rightarrow> Inl e
        | Inr fs' \<Rightarrow>
            Inr (st\<lparr>newPage := \<lparr>pf_name = [], pf_privacyLevel = ''private''\<rparr>,
                    showPageModal := False\<rparr>, fs'))"

definition widget_doc ::
  "(string \<Rightarrow> jsnum) \<Rightarrow> string \<Rightarrow> selphi \<Rightarrow> auth_user \<Rightarrow> string \<Rightarrow> document" where
  "widget_doc str_to_num panelLocation st u active =
     [(''userId'', FString (uid u)),
      (''type'', FString (wf_type (newWidget st))),
      (''content'', FString (trim (wf_content (newWidget st)))),
      (''panelLocation'', FString panelLocation),
      (''order'', FNumber (num_or_zero (to_number str_to_num (wf_order (newWidget st))))),
      (''pageId'', FString active),
      (''createdAt'', FServerTimestamp)]"

definition createWidget ::
  "(string \<Rightarrow> jsnum) \<Rightarrow> bool \<Rightarrow> string \<Rightarrow> selphi \<Rightarrow> store \<Rightarrow> error + selphi \<times> store" where
  "createWidget str_to_num accepted panelLocation st fs =
     (case db st of None \<Rightarrow> Inr (st, fs) | Some d \<Rightarrow>
      case user st of None \<Rightarrow> Inr (st, fs) | Some u \<Rightarrow>
      if appId st = [] then Inr (st, fs)
      else case activePageId st of None \<Rightarrow> Inr (st, fs) | Some active \<Rightarrow>
      if active = [] then Inr (st, fs)
      else if trim (wf_content (newWidget st)) = [] then Inr (st, fs)
      else
        case addDoc accepted fs (basePath (appId st) u @ ''/widgets'')
               (widget_doc str_to_num panelLocation st u active) of
          Inl e \<Rightarrow> Inl e
        | Inr fs' \<Rightarrow>
            let st' = st\<lparr>newWidget :=
                      \<lparr>wf_type = ''link'', wf_content = [], wf_order = PNumber (Num 0)\<rparr>\<rparr>
            in Inr (if panelLocation = ''left'' then st'\<lparr>showLeftWidgetModal := False\<rparr>
                    else st'\<lparr>showRightWidgetModal := False\<rparr>, fs'))"

definition post_doc :: "selphi \<Rightarrow> auth_user \<Rightarrow> string \<Rightarrow> document" where
  "post_doc st u active =
     [(''userId'', FString (uid u)),
      (''content'', FString (trim (newPost st))),
      (''pageId'', FString active),
      (''timestamp'', FServerTimestamp)]"

definition createPost :: "bool \<Rightarrow> selphi \<Rightarrow> store \<Rightarrow> error + selphi \<times> store" where
  "createPost accepted st fs =
     (case db st of None \<Rightarrow> Inr (st, fs) | Some d \<Rightarrow>
      case user st of None \<Rightarrow> Inr (st, fs) | Some u \<Rightarrow>
      if appId st = [] then Inr (st, fs)
      else case activePageId st of None \<Rightarrow> Inr (st, fs) | Some active \<Rightarrow>
      if active = [] then Inr (st, fs)
      else if trim (newPost st) = [] then Inr (st, fs)
      else
        case addDoc accepted fs (basePath (appId st) u @ ''/feed_posts'') (post_doc st u active) of
          Inl e \<Rightarrow> Inl e
        | Inr fs' \<Rightarrow> Inr (st\<lparr>newPost := []\<rparr>, fs'))"

text \<open>The state of a freshly mounted component when local storage holds no setting.\<close>

definition initial :: selphi where
  "initial =
     \<lparr>firebaseConfigRaw = JStr [], customToken = [], appId = [], db = None, user = None,
      status = ''Not connected'',
      pages = [], activePageId = None, widgets = [], feed = [],
      showPageModal = False, showLeftWidgetModal = False, showRightWidgetModal = False,
      showSettings = False, mobileLeftOpen = False, mobileRightOpen = False,
      newPage = \<lparr>pf_name = [], pf_privacyLevel = ''private''\<rparr>,
      newWidget = \<lparr>wf_type = ''link'', wf_content = [], wf_order = PNumber (Num 0)\<rparr>,
      newPost = []\<rparr>"

section \<open>Connecting to the backend\<close>

text \<open>
  The initialisation effect. A configuration that the parser rejects leaves the component
  waiting; \<open>init_error\<close> is the message of the error that the backend SDK throws, if any.
\<close>

definition initFirebase ::
  "(string \<Rightarrow> error + json) \<Rightarrow> string option \<Rightarrow> selphi \<Rightarrow> selphi" where
  "initFirebase parse init_error st =
     (if \<not> truthy_json (parseFirebaseConfig parse (firebaseConfigRaw st))
      then st\<lparr>status := ''Awaiting Firebase config''\<rparr>
      else case init_error of
             Some msg \<Rightarrow> st\<lparr>status := ''Init error: '' @ msg\<rparr>
           | None \<Rightarrow> st\<lparr>db := Some Firestore, status := ''Firebase initialized''\<rparr>)"

section \<open>Derived views\<close>

text \<open>
  \<open>Array.prototype.sort\<close> with a comparator: the language requires a stable sort, and
  an element moves in front of another only when the comparator orders it strictly first.
  It is modelled by stable insertion.
\<close>

fun insert_cmp :: "('a \<Rightarrow> 'a \<Rightarrow> int) \<Rightarrow> 'a \<Rightarrow> 'a list \<Rightarrow> 'a list" where
  "insert_cmp cmp x [] = [x]"
| "insert_cmp cmp x (y # ys) = (if cmp x y \<le> 0 then x # y # ys else y # insert_cmp cmp x ys)"

definition js_sort :: "('a \<Rightarrow> 'a \<Rightarrow> int) \<Rightarrow> 'a list \<Rightarrow> 'a list" where
  "js_sort cmp xs = foldr (insert_cmp cmp) xs []"

text \<open>\<open>w.order || 0\<close>: an absent order and the order 0 are falsy.\<close>

definition order_or_zero :: "widget \<Rightarrow> int" where
  "order_or_zero w = (case w_order w of None \<Rightarrow> 0 | Some n \<Rightarrow> if n \<noteq> 0 then n else 0)"

text \<open>The comparator \<open>(a, b) => (a.order || 0) - (b.order || 0)\<close>.\<close>

definition by_order :: "widget \<Rightarrow> widget \<Rightarrow> int" where
  "by_order a b = order_or_zero a - order_or_zero b"

text \<open>
  \<open>x.pageId === activePageId\<close>: an absent \<open>pageId\<close> is \<open>undefined\<close>, which is
  strictly equal neither to \<open>null\<close> nor to a string.
\<close>

fun same_page :: "string option \<Rightarrow> string option \<Rightarrow> bool" where
  "same_page (Some p) (Some a) = (p = a)"
| "same_page p a = False"

definition leftWidgets :: "selphi \<Rightarrow> widget list" where
  "leftWidgets st =
     js_sort by_order
       (filter (\<lambda>w. w_panelLocation w = ''left'' \<and> same_page (w_pageId w) (activePageId st))
          (widgets st))"

definition rightWidgets :: "selphi \<Rightarrow> widget list" where
  "rightWidgets st =
     js_sort by_order
       (filter (\<lambda>w. w_panelLocation w = ''right'' \<and> same_page (w_pageId w) (activePageId st))
          (widgets st))"

definition pageFeed :: "selphi \<Rightarrow> post list" where
  "pageFeed st = filter (\<lambda>p. same_page (f_pageId p) (activePageId st)) (feed st)"

text \<open>Choosing a page in the page switcher: \<open>setActivePageId(p.id)\<close>.\<close>

definition selectPage :: "string \<Rightarrow> selphi \<Rightarrow> selphi" where
  "selectPage i st = st\<lparr>activePageId := Some i\<rparr>"

section \<open>Live subscriptions\<close>

text \<open>
  The subscription effect runs when \<open>db\<close>, \<open>user\<close> or \<open>appId\<close> changes, and only
  then. The handlers it registers are closures of the render that ran it: they see the
  \<open>activePageId\<close> of that render, kept here in \<open>sub_activePageId\<close>.
\<close>

record subscription =
  sub_basePath :: string
  sub_activePageId :: "string option"

definition subscribe :: "selphi \<Rightarrow> subscription option" where
  "subscribe st =
     (case db st of None \<Rightarrow> None | Some d \<Rightarrow>
      case user st of None \<Rightarrow> None | Some u \<Rightarrow>
      if appId st = [] then None
      else Some \<lparr>sub_basePath = basePath (appId st) u, sub_activePageId = activePageId st\<rparr>)"

text \<open>\<open>list.find(p => p.isDefault) || list[0]\<close>; \<open>None\<close> is \<open>undefined\<close>.\<close>

definition default_or_first :: "page list \<Rightarrow> page option" where
  "default_or_first list =
     (case find p_isDefault list of
        Some p \<Rightarrow> Some p
      | None \<Rightarrow> (case list of [] \<Rightarrow> None | p # ps \<Rightarrow> Some p))"

text \<open>The handler of the pages subscription.\<close>

definition onPagesSnapshot :: "subscription \<Rightarrow> page list \<Rightarrow> selphi \<Rightarrow> selphi" where
  "onPagesSnapshot sub list st =
     (let st1 = st\<lparr>pages := list\<rparr> in
      if no_active (sub_activePageId sub) then
        (case default_or_first list of
           Some def \<Rightarrow> st1\<lparr>activePageId := Some (p_id def)\<rparr>
         | None \<Rightarrow> st1\<lparr>activePageId := None\<rparr>)
      else st1)"

definition onWidgetsSnapshot :: "widget list \<Rightarrow> selphi \<Rightarrow> selphi" where
  "onWidgetsSnapshot list st = st\<lparr>widgets := list\<rparr>"

definition onFeedSnapshot :: "post list \<Rightarrow> selphi \<Rightarrow> selphi" where
  "onFeedSnapshot list st = st\<lparr>feed := list\<rparr>"

text \<open>The mounted component: its state and the subscription in force, if any.\<close>

record component =
  state :: selphi
  sub :: "subscription option"

text \<open>
  A render with a new state: the subscription effect runs again only when one of its
  dependencies changed.
\<close>

definition rerender :: "selphi \<Rightarrow> component \<Rightarrow> component" where
  "rerender st' c =
     \<lparr>state = st',
      sub = (if db st' = db (state c) \<and> user st' = user (state c) \<and> appId st' = appId (state c)
             then sub c else subscribe st')\<rparr>"

datatype event =
    FirebaseReady
  | SignedIn auth_user
  | AppIdInput string
  | SelectPage string
  | PagesSnapshot "page list"
  | WidgetsSnapshot "widget list"
  | FeedSnapshot "post list"

fun step :: "component \<Rightarrow> event \<Rightarrow> component" where
  "step c FirebaseReady =
     rerender ((state c)\<lparr>db := Some Firestore, status := ''Firebase initialized''\<rparr>) c"
| "step c (SignedIn u) = rerender ((state c)\<lparr>user := Some u, status := ''Authenticated''\<rparr>) c"
| "step c (AppIdInput a) = rerender ((state c)\<lparr>appId := a\<rparr>) c"
| "step c (SelectPage i) = rerender (selectPage i (state c)) c"
| "step c (PagesSnapshot l) =
     (case sub c of None \<Rightarrow> c | Some s \<Rightarrow> rerender (onPagesSnapshot s l (state c)) c)"
| "step c (WidgetsSnapshot l) =
     (case sub c of None \<Rightarrow> c | Some s \<Rightarrow> rerender (onWidgetsSnapshot l (state c)) c)"
| "step c (FeedSnapshot l) =
     (case sub c of None \<Rightarrow> c | Some s \<Rightarrow> rerender (onFeedSnapshot l (state c)) c)"

definition mount :: component where
  "mount = \<lparr>state = initial, sub = subscribe initial\<rparr>"

definition run :: "event list \<Rightarrow> component" where
  "run evs = foldl step mount evs"

section \<open>Notions used to state the properties\<close>

text \<open>
  \<open>ys\<close> is the stable ascending arrangement of \<open>xs\<close> by the key \<open>f\<close>: the same
  elements, keys ascending, elements of equal key in the order they have in \<open>xs\<close>.
\<close>

definition stable_sorted_by :: "('a \<Rightarrow> int) \<Rightarrow> 'a list \<Rightarrow> 'a list \<Rightarrow> bool" where
  "stable_sorted_by f xs ys =
     (mset ys = mset xs \<and> sorted (map f ys) \<and>
      (\<forall>k. filter (\<lambda>x. f x = k) ys = filter (\<lambda>x. f x = k) xs))"


text \<open>The value is an object that holds a truthy value under the key.\<close>

fun has_truthy :: "json \<Rightarrow> string \<Rightarrow> bool" where
  "has_truthy (JObj kv) k = (case map_of kv k of None \<Rightarrow> False | Some v \<Rightarrow> truthy_json v)"
| "has_truthy v k = False"

section \<open>Fixtures\<close>

text \<open>A signed-in session on application \<open>app1\<close> with every form filled in.\<close>

definition demo :: selphi where
  "demo = initial\<lparr>appId := ''app1'', db := Some Firestore, user := Some \<lparr>uid = ''u7''\<rparr>,
     activePageId := Some ''p1'',
     newPage := \<lparr>pf_name = '' Music '', pf_privacyLevel = ''public''\<rparr>,
     newWidget := \<lparr>wf_type = ''text'', wf_content = ''hello  '', wf_order = PStr ''abc''\<rparr>,
     newPost := ''  hi''\<rparr>"

definition w1 :: widget where
  "w1 = \<lparr>w_id = ''w1'', w_type = ''text'', w_content = ''one'', w_panelLocation = ''left'',
          w_order = Some 2, w_pageId = Some ''p1''\<rparr>"

definition w2 :: widget where
  "w2 = \<lparr>w_id = ''w2'', w_type = ''link'', w_content = ''two'', w_panelLocation = ''left'',
          w_order = None, w_pageId = Some ''p1''\<rparr>"

definition w3 :: widget where
  "w3 = \<lparr>w_id = ''w3'', w_type = ''link'', w_content = ''three'', w_panelLocation = ''right'',
          w_order = Some (- 1), w_pageId = Some ''p1''\<rparr>"

definition w4 :: widget where
  "w4 = \<lparr>w_id = ''w4'', w_type = ''image'', w_content = ''four'', w_panelLocation = ''left'',
          w_order = Some 0, w_pageId = Some ''p2''\<rparr>"

definition w5 :: widget where
  "w5 = \<lparr>w_id = ''w5'', w_type = ''image'', w_content = ''five'', w_panelLocation = ''left'',
          w_order = Some (- 3), w_pageId = Some ''p1''\<rparr>"

definition post1 :: post where
  "post1 = \<lparr>f_id = ''f1'', f_content = ''first'', f_pageId = Some ''p1''\<rparr>"

definition post2 :: post where
  "post2 = \<lparr>f_id = ''f2'', f_content = ''second'', f_pageId = Some ''p2''\<rparr>"

definition demo_data :: selphi where
  "demo_data = demo\<lparr>widgets := [w1, w2, w3, w4, w5], feed := [post1, post2]\<rparr>"

definition pgA :: page where
  "pgA = \<lparr>p_id = ''A'', p_name = ''Home'', p_privacyLevel = ''private'', p_isDefault = True\<rparr>"

definition pgB :: page where
  "pgB = \<lparr>p_id = ''B'', p_name = ''Work'', p_privacyLevel = ''public'', p_isDefault = False\<rparr>"

definition pgC :: page where
  "pgC = \<lparr>p_id = ''C'', p_name = ''Music'', p_privacyLevel = ''public'', p_isDefault = False\<rparr>"

text \<open>
  A session from mount: settings entered, backend connected, user signed in, the pages
  \<open>A\<close> (default) and \<open>B\<close> arrive, and the user chooses \<open>B\<close>.
\<close>

definition session_start :: "event list" where
  "session_start = [AppIdInput ''app1'', FirebaseReady, SignedIn \<lparr>uid = ''u7''\<rparr>,
                    PagesSnapshot [pgA, pgB], SelectPage ''B'']"


text \<open>A stand-in for \<open>JSON.parse\<close> that knows two texts.\<close>

definition demo_parse :: "string \<Rightarrow> error + json" where
  "demo_parse s =
     (if s = ''full'' then
        Inr (JObj [(''apiKey'', JStr ''k''), (''authDomain'', JStr ''d''), (''projectId'', JStr ''p'')])
      else if s = ''partial'' then
        Inr (JObj [(''apiKey'', JStr ''k''), (''authDomain'', JStr []), (''projectId'', JStr ''p'')])
      else Inl SyntaxError)"

text \<open>A codec for string values: the text between two quotation marks.\<close>

definition quote :: "string \<Rightarrow> string" where
  "quote s = CHR 0x22 # s @ [CHR 0x22]"

definition unquote :: "string \<Rightarrow> error + string" where
  "unquote t =
     (if 2 \<le> length t \<and> hd t = CHR 0x22 \<and> last t = CHR 0x22 then Inr (butlast (tl t))
      else Inl SyntaxError)"

definition empty_storage :: local_storage where
  "empty_storage = \<lparr>ls_available = True, ls_quota = 5000000, ls_items = []\<rparr>"

section \<open>Auxiliary facts\<close>

lemma trim_empty_iff: "trim s = [] \<longleftrightarrow> list_all is_ws s"
proof -
  let ?t = "dropWhile is_ws s"
  have "trim s = [] \<longleftrightarrow> (\<forall>x\<in>set ?t. is_ws x)"
    by (simp add: trim_def dropWhile_eq_Nil_conv)
  also have "\<dots> \<longleftrightarrow> ?t = []"
  proof
    assume a: "\<forall>x\<in>set ?t. is_ws x"
    show "?t = []"
    proof (rule ccontr)
      assume "?t \<noteq> []"
      then have "hd ?t \<in> set ?t" and "\<not> is_ws (hd ?t)"
        by (simp_all add: hd_dropWhile)
      with a show False by blast
    qed
  qed (auto dest: set_dropWhileD)
  also have "\<dots> \<longleftrightarrow> list_all is_ws s"
    by (simp add: dropWhile_eq_Nil_conv list_all_iff)
  finally show ?thesis .
qed

text \<open>What a create operation that returns has done: nothing, or one accepted write.\<close>

lemma createPage_cases:
  assumes "createPage accepted st fs = Inr (st', fs')"
  shows "(st' = st \<and> fs' = fs) \<or>
         (\<exists>u. user st = Some u \<and> db st \<noteq> None \<and> appId st \<noteq> [] \<and>
              trim (pf_name (newPage st)) \<noteq> [] \<and> accepted \<and>
              fs' = fs @ [(basePath (appId st) u @ ''/niche_pages'', page_doc st u)] \<and>
              st' = st\<lparr>newPage := \<lparr>pf_name = [], pf_privacyLevel = ''private''\<rparr>,
                       showPageModal := False\<rparr>)"
  using assms
  by (auto simp: createPage_def addDoc_def split: option.splits if_splits)

lemma createWidget_cases:
  assumes "createWidget str_to_num accepted loc st fs = Inr (st', fs')"
  shows "(st' = st \<and> fs' = fs) \<or>
         (\<exists>u a. user st = Some u \<and> activePageId st = Some a \<and> a \<noteq> [] \<and> db st \<noteq> None \<and>
              appId st \<noteq> [] \<and> trim (wf_content (newWidget st)) \<noteq> [] \<and> accepted \<and>
              fs' = fs @ [(basePath (appId st) u @ ''/widgets'',
                           widget_doc str_to_num loc st u a)])"
  using assms
  by (auto simp: createWidget_def addDoc_def Let_def split: option.splits if_splits)

lemma createPost_cases:
  assumes "createPost accepted st fs = Inr (st', fs')"
  shows "(st' = st \<and> fs' = fs) \<or>
         (\<exists>u a. user st = Some u \<and> activePageId st = Some a \<and> a \<noteq> [] \<and> db st \<noteq> None \<and>
              appId st \<noteq> [] \<and> trim (newPost st) \<noteq> [] \<and> accepted \<and>
              fs' = fs @ [(basePath (appId st) u @ ''/feed_posts'', post_doc st u a)] \<and>
              st' = st\<lparr>newPost := []\<rparr>)"
  using assms
  by (auto simp: createPost_def addDoc_def split: option.splits if_splits)

text \<open>The fixture session run through each operation.\<close>

lemma trim_fixtures:
  "trim '' Music '' = ''Music''" "trim ''hello  '' = ''hello''" "trim ''  hi'' = ''hi''"
  by (simp_all add: trim_def is_ws_def)

lemma createPage_demo:
  "createPage True demo [] =
     Inr (demo\<lparr>newPage := \<lparr>pf_name = [], pf_privacyLevel = ''private''\<rparr>, showPageModal := False\<rparr>,
          [(''artifacts/app1/users/u7/selphi_data/niche_pages'',
            [(''userId'', FString ''u7''), (''name'', FString ''Music''),
             (''privacyLevel'', FString ''public''), (''isDefault'', FBoolean True),
             (''createdAt'', FServerTimestamp)])])"
  by (simp add: createPage_def demo_def initial_def addDoc_def basePath_def page_doc_def
      trim_fixtures)

lemma createWidget_demo:
  "createWidget (\<lambda>s. NaN) True ''left'' demo [] =
     Inr (demo\<lparr>newWidget := \<lparr>wf_type = ''link'', wf_content = [], wf_order = PNumber (Num 0)\<rparr>,
               showLeftWidgetModal := False\<rparr>,
          [(''artifacts/app1/users/u7/selphi_data/widgets'',
            [(''userId'', FString ''u7''), (''type'', FString ''text''),
             (''content'', FString ''hello''), (''panelLocation'', FString ''left''),
             (''order'', FNumber 0), (''pageId'', FString ''p1''),
             (''createdAt'', FServerTimestamp)])])"
  by (simp add: createWidget_def demo_def initial_def addDoc_def basePath_def widget_doc_def
      trim_fixtures)

lemma createPost_demo:
  "createPost True demo [] =
     Inr (demo\<lparr>newPost := []\<rparr>,
          [(''artifacts/app1/users/u7/selphi_data/feed_posts'',
            [(''userId'', FString ''u7''), (''content'', FString ''hi''),
             (''pageId'', FString ''p1''), (''timestamp'', FServerTimestamp)])])"
  by (simp add: createPost_def demo_def initial_def addDoc_def basePath_def post_doc_def
      trim_fixtures)

text \<open>The model of the platform's sort, with this comparator, is the stable sort by key.\<close>

lemma insert_cmp_by_order: "insert_cmp by_order x ys = insort_key order_or_zero x ys"
  by (induction ys) (simp_all add: by_order_def)

lemma js_sort_by_order: "js_sort by_order xs = sort_key order_or_zero xs"
proof -
  have "insert_cmp by_order = insort_key order_or_zero"
    by (intro ext) (rule insert_cmp_by_order)
  then show ?thesis by (simp add: js_sort_def sort_key_def)
qed

lemma stable_sorted_by_sort_key: "stable_sorted_by f xs (sort_key f xs)"
  by (simp add: stable_sorted_by_def sort_key_stable)

lemma stable_sorted_by_unique:
  assumes "stable_sorted_by f xs ys"
  shows "ys = sort_key f xs"
proof -
  have "sort_key f xs = ys"
  proof (rule properties_for_sort_key)
    show "mset ys = mset xs" using assms by (simp add: stable_sorted_by_def)
    show "sorted (map f ys)" using assms by (simp add: stable_sorted_by_def)
    fix k assume "k \<in> set ys"
    from assms have "filter (\<lambda>x. f x = f k) ys = filter (\<lambda>x. f x = f k) xs"
      by (simp add: stable_sorted_by_def)
    then show "filter (\<lambda>x. f k = f x) ys = filter (\<lambda>x. f k = f x) xs"
      by (simp add: eq_commute)
  qed
  then show ?thesis by simp
qed

lemma same_page_eq: "same_page p a \<longleftrightarrow> (\<exists>i. p = Some i \<and> a = Some i)"
  by (cases p; cases a) auto

lemma set_js_sort_by_order: "set (js_sort by_order xs) = set xs"
  by (simp add: js_sort_by_order)







lemma rightWidgets_demo: "rightWidgets demo_data = [w3]"
  by (simp add: rightWidgets_def demo_data_def demo_def initial_def js_sort_def by_order_def
      order_or_zero_def w1_def w2_def w3_def w4_def w5_def)

lemma required_loop_all:
  "list_all (has_truthy obj) ks \<Longrightarrow> required_loop obj ks = Inr obj"
  by (induction ks) (cases obj; auto simp: falsy_prop_def split: option.splits)+

lemma required_loop_missing:
  "\<not> list_all (has_truthy obj) ks \<Longrightarrow>
     required_loop obj ks = Inr JNull \<or> required_loop obj ks = Inl TypeError"
  by (induction ks) (cases obj; auto simp: falsy_prop_def split: option.splits)+

text \<open>The handler decides by the page id its closure captured, not by the current one.\<close>

lemma onPagesSnapshot_captured:
  "no_active (sub_activePageId s) \<Longrightarrow>
     activePageId (onPagesSnapshot s l st) = map_option p_id (default_or_first l)"
  "\<not> no_active (sub_activePageId s) \<Longrightarrow>
     activePageId (onPagesSnapshot s l st) = activePageId st"
  by (simp_all add: onPagesSnapshot_def Let_def split: option.splits)

section \<open>Create operations without a session\<close>

text \<open>
  C1. When the database handle, the authenticated user or the application id is absent
  (the id is absent when it is the empty string), createPage, createWidget and createPost
  return without adding a document and leave the whole component state as it was,
  whatever the backend would have answered.
\<close>

theorem create_without_session_noop:
  assumes "db st = None \<or> user st = None \<or> appId st = []"
  shows "createPage accepted st fs = Inr (st, fs)
       \<and> createWidget str_to_num accepted panelLocation st fs = Inr (st, fs)
       \<and> createPost accepted st fs = Inr (st, fs)"
  using assms
  by (auto simp: createPage_def createWidget_def createPost_def split: option.splits)

theorem create_without_session_noop_witness:
  "createPage True (demo\<lparr>user := None\<rparr>) [] = Inr (demo\<lparr>user := None\<rparr>, [])
 \<and> createWidget (\<lambda>s. NaN) True ''left'' (demo\<lparr>user := None\<rparr>) [] = Inr (demo\<lparr>user := None\<rparr>, [])
 \<and> createPost True (demo\<lparr>user := None\<rparr>) [] = Inr (demo\<lparr>user := None\<rparr>, [])"
  by (rule create_without_session_noop) simp

section \<open>Panel widgets\<close>

text \<open>
  C2. The left-panel list is the stable ascending arrangement, by order with an absent
  order counted as 0, of exactly the widgets whose panelLocation is \<open>left\<close> and whose
  pageId is the active page id; likewise the right-panel list for \<open>right\<close>. Each list
  is the only list with that property, so the input determines the sequence.
\<close>

theorem panel_widgets_sorted:
  "stable_sorted_by order_or_zero
      (filter (\<lambda>w. w_panelLocation w = ''left'' \<and> same_page (w_pageId w) (activePageId st))
         (widgets st))
      (leftWidgets st)
 \<and> stable_sorted_by order_or_zero
      (filter (\<lambda>w. w_panelLocation w = ''right'' \<and> same_page (w_pageId w) (activePageId st))
         (widgets st))
      (rightWidgets st)
 \<and> (\<forall>ys. stable_sorted_by order_or_zero
      (filter (\<lambda>w. w_panelLocation w = ''left'' \<and> same_page (w_pageId w) (activePageId st))
         (widgets st)) ys
        \<longrightarrow> ys = leftWidgets st)
 \<and> (\<forall>ys. stable_sorted_by order_or_zero
      (filter (\<lambda>w. w_panelLocation w = ''right'' \<and> same_page (w_pageId w) (activePageId st))
         (widgets st)) ys
        \<longrightarrow> ys = rightWidgets st)"
proof -
  have l: "leftWidgets st = sort_key order_or_zero
      (filter (\<lambda>w. w_panelLocation w = ''left'' \<and> same_page (w_pageId w) (activePageId st))
         (widgets st))"
    by (simp add: leftWidgets_def js_sort_by_order)
  have r: "rightWidgets st = sort_key order_or_zero
      (filter (\<lambda>w. w_panelLocation w = ''right'' \<and> same_page (w_pageId w) (activePageId st))
         (widgets st))"
    by (simp add: rightWidgets_def js_sort_by_order)
  show ?thesis
    unfolding l r
    by (intro conjI allI impI stable_sorted_by_sort_key stable_sorted_by_unique)
qed

theorem panel_widgets_sorted_witness:
  "leftWidgets demo_data = [w5, w2, w1] \<and> rightWidgets demo_data = [w3]"
proof -
  have f: "filter (\<lambda>w. w_panelLocation w = ''left'' \<and> same_page (w_pageId w) (activePageId demo_data))
             (widgets demo_data) = [w1, w2, w5]"
    by (simp add: demo_data_def demo_def initial_def w1_def w2_def w3_def w4_def w5_def)
  have g: "filter (\<lambda>w. w_panelLocation w = ''right'' \<and> same_page (w_pageId w) (activePageId demo_data))
             (widgets demo_data) = [w3]"
    by (simp add: demo_data_def demo_def initial_def w1_def w2_def w3_def w4_def w5_def)
  have k: "order_or_zero w1 = 2" "order_or_zero w2 = 0" "order_or_zero w5 = - 3"
    by (simp_all add: order_or_zero_def w1_def w2_def w5_def)
  have a: "stable_sorted_by order_or_zero [w1, w2, w5] [w5, w2, w1]"
    by (simp add: stable_sorted_by_def k)
  have b: "stable_sorted_by order_or_zero [w3] [w3]"
    by (simp add: stable_sorted_by_def)
  from panel_widgets_sorted [of demo_data] a b show ?thesis
    unfolding f g by metis
qed

section \<open>The configuration parser\<close>

text \<open>
  C3. parseFirebaseConfig always returns a value (no throw escapes it). It returns null
  when the input is empty (falsy), when the input is a string that is not valid JSON, and
  when the parsed value lacks a truthy value under apiKey, authDomain or projectId (a key
  absent or falsy, or a value that is no object at all). In every other case it returns
  the parsed object itself. A null result is treated as an absent configuration: the
  initialisation effect connects nothing and reports that it awaits a configuration.
\<close>

theorem config_parser:
  "(\<not> truthy_json input \<longrightarrow> parseFirebaseConfig parse input = JNull)
 \<and> (input = JStr s \<and> parse s = Inl e \<longrightarrow> parseFirebaseConfig parse input = JNull)
 \<and> (decode parse input = Inr obj
      \<and> list_ex (\<lambda>k. \<not> has_truthy obj k) [''apiKey'', ''authDomain'', ''projectId'']
       \<longrightarrow> parseFirebaseConfig parse input = JNull)
 \<and> (truthy_json input \<and> decode parse input = Inr obj
      \<and> list_all (has_truthy obj) [''apiKey'', ''authDomain'', ''projectId'']
       \<longrightarrow> parseFirebaseConfig parse input = obj)
 \<and> (parseFirebaseConfig parse (firebaseConfigRaw st) = JNull
       \<longrightarrow> initFirebase parse init_error st = st\<lparr>status := ''Awaiting Firebase config''\<rparr>)"
proof (intro conjI impI)
  assume "\<not> truthy_json input"
  then show "parseFirebaseConfig parse input = JNull"
    by (simp add: parseFirebaseConfig_def)
next
  assume "input = JStr s \<and> parse s = Inl e"
  then show "parseFirebaseConfig parse input = JNull"
    by (simp add: parseFirebaseConfig_def decode_def)
next
  assume a: "decode parse input = Inr obj
      \<and> list_ex (\<lambda>k. \<not> has_truthy obj k) [''apiKey'', ''authDomain'', ''projectId'']"
  then have "\<not> list_all (has_truthy obj) required"
    by (simp add: required_def)
  from required_loop_missing [OF this] a
  show "parseFirebaseConfig parse input = JNull"
    by (auto simp: parseFirebaseConfig_def)
next
  assume a: "truthy_json input \<and> decode parse input = Inr obj
      \<and> list_all (has_truthy obj) [''apiKey'', ''authDomain'', ''projectId'']"
  then have "list_all (has_truthy obj) required"
    by (simp add: required_def)
  from required_loop_all [OF this] a
  show "parseFirebaseConfig parse input = obj"
    by (simp add: parseFirebaseConfig_def)
next
  assume "parseFirebaseConfig parse (firebaseConfigRaw st) = JNull"
  then show "initFirebase parse init_error st = st\<lparr>status := ''Awaiting Firebase config''\<rparr>"
    by (simp add: initFirebase_def)
qed

theorem config_parser_witness:
  "parseFirebaseConfig demo_parse (JStr []) = JNull
 \<and> parseFirebaseConfig demo_parse (JStr ''{'') = JNull
 \<and> parseFirebaseConfig demo_parse (JStr ''partial'') = JNull
 \<and> parseFirebaseConfig demo_parse (JStr ''full'')
     = JObj [(''apiKey'', JStr ''k''), (''authDomain'', JStr ''d''), (''projectId'', JStr ''p'')]"
proof -
  have 1: "parseFirebaseConfig demo_parse (JStr []) = JNull"
    using config_parser [of "JStr []" demo_parse] by simp
  have 2: "parseFirebaseConfig demo_parse (JStr ''{'') = JNull"
    using config_parser [of "JStr ''{''" demo_parse "''{''" SyntaxError]
    by (simp add: demo_parse_def)
  have 3: "parseFirebaseConfig demo_parse (JStr ''partial'') = JNull"
    using config_parser [of "JStr ''partial''" demo_parse _ _
        "JObj [(''apiKey'', JStr ''k''), (''authDomain'', JStr []), (''projectId'', JStr ''p'')]"]
    by (simp add: demo_parse_def decode_def)
  have 4: "parseFirebaseConfig demo_parse (JStr ''full'')
     = JObj [(''apiKey'', JStr ''k''), (''authDomain'', JStr ''d''), (''projectId'', JStr ''p'')]"
    using config_parser [of "JStr ''full''" demo_parse _ _
        "JObj [(''apiKey'', JStr ''k''), (''authDomain'', JStr ''d''), (''projectId'', JStr ''p'')]"]
    by (simp add: demo_parse_def decode_def)
  from 1 2 3 4 show ?thesis by simp
qed

section \<open>The default page\<close>

text \<open>
  C4. With a session and a name that is not blank, createPage writes exactly one page
  document when the backend accepts it, and the isDefault field of that document is true
  if and only if the local list of pages is empty at the time of the call: a page created
  while the list is not empty is written with isDefault false. The call itself leaves the
  local list as it is; only a pages snapshot changes it.
\<close>

theorem first_page_is_default:
  assumes "db st = Some d" and "user st = Some u" and "appId st \<noteq> []"
    and "trim (pf_name (newPage st)) \<noteq> []"
  shows "createPage True st fs =
           Inr (st\<lparr>newPage := \<lparr>pf_name = [], pf_privacyLevel = ''private''\<rparr>,
                   showPageModal := False\<rparr>,
                fs @ [(''artifacts/'' @ appId st @ ''/users/'' @ uid u @ ''/selphi_data/niche_pages'',
                       [(''userId'', FString (uid u)),
                        (''name'', FString (trim (pf_name (newPage st)))),
                        (''privacyLevel'', FString (pf_privacyLevel (newPage st))),
                        (''isDefault'', FBoolean (pages st = [])),
                        (''createdAt'', FServerTimestamp)])])
       \<and> createPage False st fs = Inl WriteRejected
       \<and> (createPage accepted st0 fs0 = Inr (st', fs') \<and> fs' \<noteq> fs0 \<longrightarrow>
            butlast fs' = fs0
            \<and> map_of (snd (last fs')) ''isDefault'' = Some (FBoolean (pages st0 = []))
            \<and> pages st' = pages st0)"
proof (intro conjI impI)
  show "createPage True st fs =
           Inr (st\<lparr>newPage := \<lparr>pf_name = [], pf_privacyLevel = ''private''\<rparr>,
                   showPageModal := False\<rparr>,
                fs @ [(''artifacts/'' @ appId st @ ''/users/'' @ uid u @ ''/selphi_data/niche_pages'',
                       [(''userId'', FString (uid u)),
                        (''name'', FString (trim (pf_name (newPage st)))),
                        (''privacyLevel'', FString (pf_privacyLevel (newPage st))),
                        (''isDefault'', FBoolean (pages st = [])),
                        (''createdAt'', FServerTimestamp)])])"
    using assms by (simp add: createPage_def addDoc_def basePath_def page_doc_def)
next
  show "createPage False st fs = Inl WriteRejected"
    using assms by (simp add: createPage_def addDoc_def)
next
  assume a: "createPage accepted st0 fs0 = Inr (st', fs') \<and> fs' \<noteq> fs0"
  with createPage_cases [of accepted st0 fs0 st' fs']
  show "butlast fs' = fs0"
    and "map_of (snd (last fs')) ''isDefault'' = Some (FBoolean (pages st0 = []))"
    and "pages st' = pages st0"
    by (auto simp: page_doc_def)
qed

theorem first_page_is_default_witness:
  "createPage True demo [] =
     Inr (demo\<lparr>newPage := \<lparr>pf_name = [], pf_privacyLevel = ''private''\<rparr>, showPageModal := False\<rparr>,
          [(''artifacts/app1/users/u7/selphi_data/niche_pages'',
            [(''userId'', FString ''u7''), (''name'', FString ''Music''),
             (''privacyLevel'', FString ''public''), (''isDefault'', FBoolean True),
             (''createdAt'', FServerTimestamp)])])
 \<and> createPage True (demo\<lparr>pages := [pgA]\<rparr>) [] =
     Inr (demo\<lparr>pages := [pgA], newPage := \<lparr>pf_name = [], pf_privacyLevel = ''private''\<rparr>,
               showPageModal := False\<rparr>,
          [(''artifacts/app1/users/u7/selphi_data/niche_pages'',
            [(''userId'', FString ''u7''), (''name'', FString ''Music''),
             (''privacyLevel'', FString ''public''), (''isDefault'', FBoolean False),
             (''createdAt'', FServerTimestamp)])])"
proof -
  have g: "db demo = Some Firestore" "user demo = Some \<lparr>uid = ''u7''\<rparr>" "appId demo = ''app1''"
    "pf_name (newPage demo) = '' Music ''" "pf_privacyLevel (newPage demo) = ''public''"
    "pages demo = []"
    by (simp_all add: demo_def initial_def)
  have 1: "createPage True demo [] =
     Inr (demo\<lparr>newPage := \<lparr>pf_name = [], pf_privacyLevel = ''private''\<rparr>, showPageModal := False\<rparr>,
          [(''artifacts/app1/users/u7/selphi_data/niche_pages'',
            [(''userId'', FString ''u7''), (''name'', FString ''Music''),
             (''privacyLevel'', FString ''public''), (''isDefault'', FBoolean True),
             (''createdAt'', FServerTimestamp)])])"
    using first_page_is_default [where st = demo and d = Firestore and u = "\<lparr>uid = ''u7''\<rparr>"
        and fs = "[]"]
    by (simp add: g trim_fixtures)
  have 2: "createPage True (demo\<lparr>pages := [pgA]\<rparr>) [] =
     Inr (demo\<lparr>pages := [pgA], newPage := \<lparr>pf_name = [], pf_privacyLevel = ''private''\<rparr>,
               showPageModal := False\<rparr>,
          [(''artifacts/app1/users/u7/selphi_data/niche_pages'',
            [(''userId'', FString ''u7''), (''name'', FString ''Music''),
             (''privacyLevel'', FString ''public''), (''isDefault'', FBoolean False),
             (''createdAt'', FServerTimestamp)])])"
    using first_page_is_default [where st = "demo\<lparr>pages := [pgA]\<rparr>" and d = Firestore
        and u = "\<lparr>uid = ''u7''\<rparr>" and fs = "[]"]
    by (simp add: g trim_fixtures)
  from 1 2 show ?thesis by simp
qed

text \<open>
  C4, its second half as stated: the second page created is not always written with
  isDefault false. From an empty local
  list, the user creates the page Music, reopens the form, and creates the page Work before
  a pages snapshot has arrived: the local list is still empty at the second call, and both
  documents are written with isDefault true.
\<close>

theorem second_page_also_default:
  "createPage True demo [] =
     Inr (demo\<lparr>newPage := \<lparr>pf_name = [], pf_privacyLevel = ''private''\<rparr>, showPageModal := False\<rparr>,
          [(''artifacts/app1/users/u7/selphi_data/niche_pages'',
            [(''userId'', FString ''u7''), (''name'', FString ''Music''),
             (''privacyLevel'', FString ''public''), (''isDefault'', FBoolean True),
             (''createdAt'', FServerTimestamp)])])
 \<and> createPage True
       (demo\<lparr>newPage := \<lparr>pf_name = ''Work'', pf_privacyLevel = ''private''\<rparr>,
              showPageModal := True\<rparr>)
       [(''artifacts/app1/users/u7/selphi_data/niche_pages'',
            [(''userId'', FString ''u7''), (''name'', FString ''Music''),
             (''privacyLevel'', FString ''public''), (''isDefault'', FBoolean True),
             (''createdAt'', FServerTimestamp)])] =
     Inr (demo\<lparr>newPage := \<lparr>pf_name = [], pf_privacyLevel = ''private''\<rparr>, showPageModal := False\<rparr>,
          [(''artifacts/app1/users/u7/selphi_data/niche_pages'',
            [(''userId'', FString ''u7''), (''name'', FString ''Music''),
             (''privacyLevel'', FString ''public''), (''isDefault'', FBoolean True),
             (''createdAt'', FServerTimestamp)]),
           (''artifacts/app1/users/u7/selphi_data/niche_pages'',
            [(''userId'', FString ''u7''), (''name'', FString ''Work''),
             (''privacyLevel'', FString ''private''), (''isDefault'', FBoolean True),
             (''createdAt'', FServerTimestamp)])])"
  by (simp add: createPage_def demo_def initial_def addDoc_def basePath_def page_doc_def
      trim_def is_ws_def)

section \<open>Written documents\<close>

text \<open>
  C5. A create operation that returns has either written nothing or appended one document
  to the collection \<open>artifacts/{appId}/users/{uid}/selphi_data/niche_pages\<close> (createPage),
  \<open>.../widgets\<close> (createWidget) or \<open>.../feed_posts\<close> (createPost) of the current
  application id and user id. The document has exactly the fields userId, name,
  privacyLevel, isDefault, createdAt (page), userId, type, content, panelLocation, order,
  pageId, createdAt (widget), userId, content, pageId, timestamp (post); userId is the
  user's id and the time field holds the server-timestamp sentinel.
\<close>

theorem written_documents:
  "(createPage accepted st fs = Inr (st', fs') \<longrightarrow>
      fs' = fs \<or>
      (\<exists>u doc. user st = Some u
         \<and> fs' = fs @ [(''artifacts/'' @ appId st @ ''/users/'' @ uid u
                         @ ''/selphi_data/niche_pages'', doc)]
         \<and> map fst doc = [''userId'', ''name'', ''privacyLevel'', ''isDefault'', ''createdAt'']
         \<and> map_of doc ''userId'' = Some (FString (uid u))
         \<and> map_of doc ''createdAt'' = Some FServerTimestamp))
 \<and> (createWidget str_to_num accepted loc st fs = Inr (st', fs') \<longrightarrow>
      fs' = fs \<or>
      (\<exists>u doc. user st = Some u
         \<and> fs' = fs @ [(''artifacts/'' @ appId st @ ''/users/'' @ uid u
                         @ ''/selphi_data/widgets'', doc)]
         \<and> map fst doc = [''userId'', ''type'', ''content'', ''panelLocation'', ''order'',
                           ''pageId'', ''createdAt'']
         \<and> map_of doc ''userId'' = Some (FString (uid u))
         \<and> map_of doc ''createdAt'' = Some FServerTimestamp))
 \<and> (createPost accepted st fs = Inr (st', fs') \<longrightarrow>
      fs' = fs \<or>
      (\<exists>u doc. user st = Some u
         \<and> fs' = fs @ [(''artifacts/'' @ appId st @ ''/users/'' @ uid u
                         @ ''/selphi_data/feed_posts'', doc)]
         \<and> map fst doc = [''userId'', ''content'', ''pageId'', ''timestamp'']
         \<and> map_of doc ''userId'' = Some (FString (uid u))
         \<and> map_of doc ''timestamp'' = Some FServerTimestamp))"
proof (intro conjI impI)
  assume "createPage accepted st fs = Inr (st', fs')"
  from createPage_cases [OF this]
  show "fs' = fs \<or>
      (\<exists>u doc. user st = Some u
         \<and> fs' = fs @ [(''artifacts/'' @ appId st @ ''/users/'' @ uid u
                         @ ''/selphi_data/niche_pages'', doc)]
         \<and> map fst doc = [''userId'', ''name'', ''privacyLevel'', ''isDefault'', ''createdAt'']
         \<and> map_of doc ''userId'' = Some (FString (uid u))
         \<and> map_of doc ''createdAt'' = Some FServerTimestamp)"
    by (auto simp: basePath_def page_doc_def)
next
  assume "createWidget str_to_num accepted loc st fs = Inr (st', fs')"
  from createWidget_cases [OF this]
  show "fs' = fs \<or>
      (\<exists>u doc. user st = Some u
         \<and> fs' = fs @ [(''artifacts/'' @ appId st @ ''/users/'' @ uid u
                         @ ''/selphi_data/widgets'', doc)]
         \<and> map fst doc = [''userId'', ''type'', ''content'', ''panelLocation'', ''order'',
                           ''pageId'', ''createdAt'']
         \<and> map_of doc ''userId'' = Some (FString (uid u))
         \<and> map_of doc ''createdAt'' = Some FServerTimestamp)"
    by (auto simp: basePath_def widget_doc_def)
next
  assume "createPost accepted st fs = Inr (st', fs')"
  from createPost_cases [OF this]
  show "fs' = fs \<or>
      (\<exists>u doc. user st = Some u
         \<and> fs' = fs @ [(''artifacts/'' @ appId st @ ''/users/'' @ uid u
                         @ ''/selphi_data/feed_posts'', doc)]
         \<and> map fst doc = [''userId'', ''content'', ''pageId'', ''timestamp'']
         \<and> map_of doc ''userId'' = Some (FString (uid u))
         \<and> map_of doc ''timestamp'' = Some FServerTimestamp)"
    by (auto simp: basePath_def post_doc_def)
qed

theorem written_documents_witness:
  "(\<exists>doc. snd (projr (createPage True demo []))
            = [(''artifacts/app1/users/u7/selphi_data/niche_pages'', doc)]
         \<and> map fst doc = [''userId'', ''name'', ''privacyLevel'', ''isDefault'', ''createdAt''])
 \<and> (\<exists>doc. snd (projr (createWidget (\<lambda>s. NaN) True ''left'' demo []))
            = [(''artifacts/app1/users/u7/selphi_data/widgets'', doc)]
         \<and> map fst doc = [''userId'', ''type'', ''content'', ''panelLocation'', ''order'',
                           ''pageId'', ''createdAt''])
 \<and> (\<exists>doc. snd (projr (createPost True demo []))
            = [(''artifacts/app1/users/u7/selphi_data/feed_posts'', doc)]
         \<and> map fst doc = [''userId'', ''content'', ''pageId'', ''timestamp''])"
  using written_documents [of True demo "[]"
      "demo\<lparr>newPage := \<lparr>pf_name = [], pf_privacyLevel = ''private''\<rparr>, showPageModal := False\<rparr>"
      "snd (projr (createPage True demo []))"]
    createPage_demo createWidget_demo createPost_demo
  by simp

section \<open>Views follow the active page\<close>

text \<open>
  C6. Every widget of the left-panel list and of the right-panel list, and every post of
  the page feed, is an item of the subscribed data whose pageId is the active page id. After
  a page is selected, the three views hold only items of the selected page.
\<close>

theorem views_scoped_to_active_page:
  "(\<forall>w \<in> set (leftWidgets st). w_pageId w = activePageId st \<and> w \<in> set (widgets st))
 \<and> (\<forall>w \<in> set (rightWidgets st). w_pageId w = activePageId st \<and> w \<in> set (widgets st))
 \<and> (\<forall>p \<in> set (pageFeed st). f_pageId p = activePageId st \<and> p \<in> set (feed st))
 \<and> (\<forall>w \<in> set (leftWidgets (selectPage i st)). w_pageId w = Some i)
 \<and> (\<forall>w \<in> set (rightWidgets (selectPage i st)). w_pageId w = Some i)
 \<and> (\<forall>p \<in> set (pageFeed (selectPage i st)). f_pageId p = Some i)"
  by (auto simp: leftWidgets_def rightWidgets_def pageFeed_def selectPage_def
        set_js_sort_by_order same_page_eq)

theorem views_scoped_to_active_page_witness:
  "leftWidgets (selectPage ''p2'' demo_data) = [w4]
 \<and> pageFeed (selectPage ''p2'' demo_data) = [post2]
 \<and> list_all (\<lambda>w. w_pageId w = Some ''p2'') (leftWidgets (selectPage ''p2'' demo_data))
 \<and> list_all (\<lambda>w. w_pageId w = Some ''p2'') (rightWidgets (selectPage ''p2'' demo_data))
 \<and> list_all (\<lambda>p. f_pageId p = Some ''p2'') (pageFeed (selectPage ''p2'' demo_data))"
proof -
  have "leftWidgets (selectPage ''p2'' demo_data) = [w4]"
    by (simp add: leftWidgets_def selectPage_def demo_data_def demo_def initial_def js_sort_def
        w1_def w2_def w3_def w4_def w5_def)
  moreover have "pageFeed (selectPage ''p2'' demo_data) = [post2]"
    by (simp add: pageFeed_def selectPage_def demo_data_def demo_def initial_def
        post1_def post2_def)
  ultimately show ?thesis
    using views_scoped_to_active_page [of demo_data "''p2''"]
    by (simp add: list_all_iff)
qed

section \<open>The local-storage hook\<close>

text \<open>
  C7. Take a value that the platform's JSON functions carry through (parsing its JSON text
  gives the value back; such a text is never empty). When the hook's effect stores it, the
  hook's initialiser reads the same value back under the same key. When no item is stored
  under the key, when storage cannot be read, or when the stored item does not parse, the
  initialiser yields the supplied initial value.
\<close>

theorem local_storage_round_trip:
  assumes "parse (stringify v) = Inr v" and "stringify v \<noteq> []"
    and "setItem ls key (stringify v) = Inr ls'"
  shows "useLocalStorage_effect stringify ls key v = ls'
       \<and> useLocalStorage_init parse ls' key initialValue = v
       \<and> (getItem ls0 key = Inr None
            \<longrightarrow> useLocalStorage_init parse ls0 key initialValue = initialValue)
       \<and> (getItem ls0 key = Inl e
            \<longrightarrow> useLocalStorage_init parse ls0 key initialValue = initialValue)
       \<and> (getItem ls0 key = Inr (Some item) \<and> parse item = Inl e
            \<longrightarrow> useLocalStorage_init parse ls0 key initialValue = initialValue)"
  using assms
  by (auto simp: useLocalStorage_effect_def useLocalStorage_init_def getItem_def setItem_def
        Let_def AList.update_conv' split: if_splits)

theorem local_storage_round_trip_witness:
  "useLocalStorage_init unquote
     (useLocalStorage_effect quote empty_storage ''__app_id'' ''app1'') ''__app_id'' [] = ''app1''
 \<and> useLocalStorage_init unquote empty_storage ''__app_id'' ''none'' = ''none''"
proof -
  have p: "unquote (quote ''app1'') = Inr ''app1''"
    by (simp add: quote_def unquote_def)
  have q: "quote ''app1'' \<noteq> []"
    by (simp add: quote_def)
  have s: "setItem empty_storage ''__app_id'' (quote ''app1'')
             = Inr (empty_storage\<lparr>ls_items := [(''__app_id'', quote ''app1'')]\<rparr>)"
    by (simp add: setItem_def empty_storage_def ls_size_def quote_def)
  have g: "getItem empty_storage ''__app_id'' = Inr None"
    by (simp add: getItem_def empty_storage_def)
  from local_storage_round_trip [where parse = unquote and stringify = quote
      and v = "''app1''" and ls = empty_storage and key = "''__app_id''"
      and ls' = "empty_storage\<lparr>ls_items := [(''__app_id'', quote ''app1'')]\<rparr>"
      and ?ls0.0 = empty_storage and initialValue = "[]"]
    local_storage_round_trip [where parse = unquote and stringify = quote
      and v = "''app1''" and ls = empty_storage and key = "''__app_id''"
      and ls' = "empty_storage\<lparr>ls_items := [(''__app_id'', quote ''app1'')]\<rparr>"
      and ?ls0.0 = empty_storage and initialValue = "''none''"]
    p q s g
  show ?thesis by simp
qed

section \<open>Order defaults to zero\<close>



section \<open>Blank text\<close>

text \<open>
  C9. When the page name, the widget content or the post body is empty or consists of
  white space only, createPage, createWidget or createPost respectively writes nothing and
  changes nothing. When one of them does write a document, the text it trimmed is not
  empty and the document's name (page) or content (widget, post) is that trimmed text.
\<close>

theorem blank_text_noop:
  "(list_all is_ws (pf_name (newPage st)) \<longrightarrow> createPage accepted st fs = Inr (st, fs))
 \<and> (list_all is_ws (wf_content (newWidget st)) \<longrightarrow>
       createWidget str_to_num accepted loc st fs = Inr (st, fs))
 \<and> (list_all is_ws (newPost st) \<longrightarrow> createPost accepted st fs = Inr (st, fs))
 \<and> (createPage accepted st fs = Inr (st', fs') \<and> fs' \<noteq> fs \<longrightarrow>
       trim (pf_name (newPage st)) \<noteq> []
       \<and> map_of (snd (last fs')) ''name'' = Some (FString (trim (pf_name (newPage st)))))
 \<and> (createWidget str_to_num accepted loc st fs = Inr (st', fs') \<and> fs' \<noteq> fs \<longrightarrow>
       trim (wf_content (newWidget st)) \<noteq> []
       \<and> map_of (snd (last fs')) ''content''
           = Some (FString (trim (wf_content (newWidget st)))))
 \<and> (createPost accepted st fs = Inr (st', fs') \<and> fs' \<noteq> fs \<longrightarrow>
       trim (newPost st) \<noteq> []
       \<and> map_of (snd (last fs')) ''content'' = Some (FString (trim (newPost st))))"
proof (intro conjI impI)
  assume "list_all is_ws (pf_name (newPage st))"
  then have "trim (pf_name (newPage st)) = []"
    by (simp add: trim_empty_iff)
  then show "createPage accepted st fs = Inr (st, fs)"
    by (simp add: createPage_def split: option.splits)
next
  assume "list_all is_ws (wf_content (newWidget st))"
  then have "trim (wf_content (newWidget st)) = []"
    by (simp add: trim_empty_iff)
  then show "createWidget str_to_num accepted loc st fs = Inr (st, fs)"
    by (simp add: createWidget_def split: option.splits)
next
  assume "list_all is_ws (newPost st)"
  then have "trim (newPost st) = []"
    by (simp add: trim_empty_iff)
  then show "createPost accepted st fs = Inr (st, fs)"
    by (simp add: createPost_def split: option.splits)
next
  assume "createPage accepted st fs = Inr (st', fs') \<and> fs' \<noteq> fs"
  with createPage_cases [of accepted st fs st' fs']
  show "trim (pf_name (newPage st)) \<noteq> []"
    and "map_of (snd (last fs')) ''name'' = Some (FString (trim (pf_name (newPage st))))"
    by (auto simp: page_doc_def)
next
  assume "createWidget str_to_num accepted loc st fs = Inr (st', fs') \<and> fs' \<noteq> fs"
  with createWidget_cases [of str_to_num accepted loc st fs st' fs']
  show "trim (wf_content (newWidget st)) \<noteq> []"
    and "map_of (snd (last fs')) ''content''
           = Some (FString (trim (wf_content (newWidget st))))"
    by (auto simp: widget_doc_def)
next
  assume "createPost accepted st fs = Inr (st', fs') \<and> fs' \<noteq> fs"
  with createPost_cases [of accepted st fs st' fs']
  show "trim (newPost st) \<noteq> []"
    and "map_of (snd (last fs')) ''content'' = Some (FString (trim (newPost st)))"
    by (auto simp: post_doc_def)
qed

theorem blank_text_noop_witness:
  "createPage True (demo\<lparr>newPage := \<lparr>pf_name = ''   '', pf_privacyLevel = ''public''\<rparr>\<rparr>) []
     = Inr (demo\<lparr>newPage := \<lparr>pf_name = ''   '', pf_privacyLevel = ''public''\<rparr>\<rparr>, [])
 \<and> createPost True (demo\<lparr>newPost := []\<rparr>) [] = Inr (demo\<lparr>newPost := []\<rparr>, [])
 \<and> map_of (snd (last (snd (projr (createPage True demo []))))) ''name''
     = Some (FString ''Music'')
 \<and> map_of (snd (last (snd (projr (createPost True demo []))))) ''content''
     = Some (FString ''hi'')"
proof -
  let ?blank = "demo\<lparr>newPage := \<lparr>pf_name = ''   '', pf_privacyLevel = ''public''\<rparr>\<rparr>"
  have w: "list_all is_ws (pf_name (newPage ?blank))"
    by (simp add: is_ws_def)
  have n: "pf_name (newPage demo) = '' Music ''" "newPost demo = ''  hi''"
    by (simp_all add: demo_def)
  from blank_text_noop [where st = ?blank and accepted = True and fs = "[]"] w
  have 1: "createPage True ?blank [] = Inr (?blank, [])"
    by simp
  from blank_text_noop [where st = "demo\<lparr>newPost := []\<rparr>" and accepted = True and fs = "[]"]
  have 2: "createPost True (demo\<lparr>newPost := []\<rparr>) [] = Inr (demo\<lparr>newPost := []\<rparr>, [])"
    by simp
  from blank_text_noop [where st = demo and accepted = True and fs = "[]"
      and st' = "fst (projr (createPage True demo []))"
      and fs' = "snd (projr (createPage True demo []))"]
  have 3: "map_of (snd (last (snd (projr (createPage True demo []))))) ''name''
     = Some (FString ''Music'')"
    by (simp add: createPage_demo n trim_fixtures)
  from blank_text_noop [where st = demo and accepted = True and fs = "[]"
      and st' = "fst (projr (createPost True demo []))"
      and fs' = "snd (projr (createPost True demo []))"]
  have 4: "map_of (snd (last (snd (projr (createPost True demo []))))) ''content''
     = Some (FString ''hi'')"
    by (simp add: createPost_demo n trim_fixtures)
  from 1 2 3 4 show ?thesis by simp
qed

section \<open>The active page and page snapshots\<close>

text \<open>
  C10. The handler of the pages subscription tests the active page id that its closure
  captured when the subscription was set up, not the current one. In the session below
  the subscription is set up while no page is active; the pages A (default) and B arrive,
  the user selects B, and the next pages snapshot moves the active page from B back to A,
  although a page was active when it arrived.
\<close>

theorem pages_snapshot_overrides_selection:
  "sub (run session_start)
     = Some \<lparr>sub_basePath = ''artifacts/app1/users/u7/selphi_data'', sub_activePageId = None\<rparr>
 \<and> activePageId (state (run session_start)) = Some ''B''
 \<and> activePageId (state (run (session_start @ [PagesSnapshot [pgA, pgB, pgC]]))) = Some ''A''"
  by (simp add: run_def session_start_def mount_def initial_def subscribe_def rerender_def
      onPagesSnapshot_def default_or_first_def no_active_def selectPage_def pgA_def pgB_def
      pgC_def basePath_def)

end
